theory Spec2Isabelle
  imports
    Complex_Main
    "HOL-Library.Word"
    "HOL-Library.Char_ord"
    "HOL-Library.List_Lexorder"
    "HOL-Library.Product_Lexorder"
begin

unbundle bit_operations_syntax

section \<open>Strings, clock readings and identifiers\<close>

text \<open>
  The program is \<^verbatim>\<open>streamlit_app.py\<close>: a Streamlit front end over two SQLite tables.
  Python strings are modelled as \<open>string\<close>; a \<open>char\<close> stands for one code point below
  256. Text columns compare with SQLite's BINARY collation, which on such strings is the
  lexicographic order of the code points (\<open>Char_ord\<close>, \<open>List_Lexorder\<close>).
\<close>

text \<open>
  \<^verbatim>\<open>str.isspace\<close> on the code points below 256: TAB, LF, VT, FF, CR, the separators
  FS, GS, RS, US, the blank, NEL and the no-break space.
\<close>

definition isspace :: "char \<Rightarrow> bool" where
  "isspace c \<longleftrightarrow> (of_char c :: nat) \<in> {9, 10, 11, 12, 13, 28, 29, 30, 31, 32, 133, 160}"

text \<open>\<^verbatim>\<open>str.strip()\<close>: drops the whitespace at both ends.\<close>

definition strip :: "string \<Rightarrow> string" where
  "strip s = rev (dropWhile isspace (rev (dropWhile isspace s)))"

text \<open>
  \<^verbatim>\<open>str.upper()\<close>, on the characters it meets in this program (the hexadecimal digits and
  the hyphen of a printed UUID): a lower-case ASCII letter moves to its capital, every
  other character stays.
\<close>

definition upper_char :: "char \<Rightarrow> char" where
  "upper_char c =
     (case map_of (zip ''abcdefghijklmnopqrstuvwxyz'' ''ABCDEFGHIJKLMNOPQRSTUVWXYZ'') c of
        Some C \<Rightarrow> C
      | None \<Rightarrow> c)"

definition upper :: "string \<Rightarrow> string" where
  "upper s = map upper_char s"

text \<open>\<^verbatim>\<open>sub in s\<close> for strings: \<open>sub\<close> occurs in \<open>s\<close> as a contiguous piece.\<close>

fun starts_with :: "string \<Rightarrow> string \<Rightarrow> bool" where
  "starts_with [] s = True"
| "starts_with (c # cs) [] = False"
| "starts_with (c # cs) (d # ds) = (c = d \<and> starts_with cs ds)"

fun str_in :: "string \<Rightarrow> string \<Rightarrow> bool" where
  "str_in sub [] = starts_with sub []"
| "str_in sub (d # ds) = (starts_with sub (d # ds) \<or> str_in sub ds)"

text \<open>
  \<^verbatim>\<open>datetime.date\<close> and \<^verbatim>\<open>datetime.datetime\<close>; the microsecond is never read.
  \<^verbatim>\<open>strftime\<close> pads with zeros: four digits for \<^verbatim>\<open>%Y\<close>, two for the other fields.
\<close>

record date_obj =
  year :: nat
  month :: nat
  day :: nat

record datetime = date_obj +
  hour :: nat
  minute :: nat
  second :: nat

definition digit :: "nat \<Rightarrow> char" where
  "digit n = ''0123456789'' ! (n mod 10)"

definition dec2 :: "nat \<Rightarrow> string" where
  "dec2 n = [digit (n div 10), digit n]"

definition dec4 :: "nat \<Rightarrow> string" where
  "dec4 n = [digit (n div 1000), digit (n div 100), digit (n div 10), digit n]"

text \<open>\<^verbatim>\<open>strftime('%Y-%m-%d')\<close>, on a date or a datetime.\<close>

definition strftime_Ymd :: "'a date_obj_scheme \<Rightarrow> string" where
  "strftime_Ymd d = dec4 (year d) @ ''-'' @ dec2 (month d) @ ''-'' @ dec2 (day d)"

text \<open>\<^verbatim>\<open>strftime('%H:%M:%S')\<close>.\<close>

definition strftime_HMS :: "'a datetime_scheme \<Rightarrow> string" where
  "strftime_HMS t = dec2 (hour t) @ '':'' @ dec2 (minute t) @ '':'' @ dec2 (second t)"

text \<open>
  \<^verbatim>\<open>str(uuid.uuid4())\<close>: the 128-bit value printed as 32 lower-case hexadecimal digits,
  most significant first, in groups of 8, 4, 4, 4 and 12 joined by hyphens. The value
  itself is the random input of a registration.
\<close>

definition hex_digit :: "nat \<Rightarrow> char" where
  "hex_digit n = ''0123456789abcdef'' ! (n mod 16)"

definition hex32 :: "128 word \<Rightarrow> string" where
  "hex32 u = map (\<lambda>k. hex_digit (unat (drop_bit (4 * (31 - k)) u AND 15))) [0..<32]"

definition uuid_str :: "128 word \<Rightarrow> string" where
  "uuid_str u =
     (let h = hex32 u
      in take 8 h @ ''-'' @ take 4 (drop 8 h) @ ''-'' @ take 4 (drop 12 h) @ ''-''
         @ take 4 (drop 16 h) @ ''-'' @ drop 20 h)"

text \<open>
  \<^verbatim>\<open>generate_unique_barcode\<close>: \<^verbatim>\<open>str(uuid.uuid4())[:8].upper()\<close>. It reads nothing of the
  store and draws once.
\<close>

definition generate_unique_barcode :: "128 word \<Rightarrow> string" where
  "generate_unique_barcode u = upper (take 8 (uuid_str u))"

text \<open>
  \<^verbatim>\<open>determine_attendance_status\<close>: the status and its coloured mark, from the hour of one
  reading of the clock.
\<close>

datatype emoji = GreenCircle | YellowCircle | RedCircle

definition determine_attendance_status :: "'a datetime_scheme \<Rightarrow> string \<times> emoji" where
  "determine_attendance_status now =
     (let current_hour = hour now
      in if current_hour \<le> 9 then (''present'', GreenCircle)
         else if current_hour \<le> 10 then (''late'', YellowCircle)
         else (''absent'', RedCircle))"

section \<open>The store\<close>

text \<open>
  The two tables of \<^verbatim>\<open>init_database\<close>, each a list of rows in insertion order, with the
  counter SQLite keeps for an AUTOINCREMENT key. No statement of the program updates or
  deletes a row.
\<close>

record student =
  s_id :: nat
  s_name :: string
  reg_no :: string
  department :: string
  parent_phone :: string
  barcode :: string
  s_created_at :: string

record attendance_record =
  a_id :: nat
  student_id :: nat
  date :: string
  time :: string
  status :: string
  a_created_at :: string

record store =
  students :: "student list"
  students_seq :: nat
  attendance :: "attendance_record list"
  attendance_seq :: nat

text \<open>\<^verbatim>\<open>init_database\<close> on a fresh file: both tables exist and are empty.\<close>

definition init_database :: store where
  "init_database = \<lparr>students = [], students_seq = 0, attendance = [], attendance_seq = 0\<rparr>"

text \<open>
  \<^verbatim>\<open>sqlite3.IntegrityError\<close>, with its message. The two columns declared UNIQUE each have
  an index; SQLite checks the index created last first, so a row that repeats both
  a barcode and a registration number is refused with the message of the barcode.
\<close>

datatype exn = IntegrityError string

text \<open>\<^verbatim>\<open>INSERT INTO students (name, reg_no, department, parent_phone, barcode)\<close>.\<close>

definition insert_student ::
  "store \<Rightarrow> string \<Rightarrow> string \<Rightarrow> string \<Rightarrow> string \<Rightarrow> string \<Rightarrow> string \<Rightarrow> exn + store" where
  "insert_student conn name rn dept phone code db_now =
     (if code \<in> set (map barcode (students conn))
        then Inl (IntegrityError ''UNIQUE constraint failed: students.barcode'')
      else if rn \<in> set (map reg_no (students conn))
        then Inl (IntegrityError ''UNIQUE constraint failed: students.reg_no'')
      else Inr (conn\<lparr>
        students := students conn @
          [\<lparr>s_id = Suc (students_seq conn), s_name = name, reg_no = rn, department = dept,
            parent_phone = phone, barcode = code, s_created_at = db_now\<rparr>],
        students_seq := Suc (students_seq conn)\<rparr>))"

text \<open>\<^verbatim>\<open>INSERT INTO attendance (student_id, date, time, status)\<close>: no constraint can fail.\<close>

definition insert_attendance ::
  "store \<Rightarrow> nat \<Rightarrow> string \<Rightarrow> string \<Rightarrow> string \<Rightarrow> string \<Rightarrow> store" where
  "insert_attendance conn sid today current_time st db_now =
     conn\<lparr>
       attendance := attendance conn @
         [\<lparr>a_id = Suc (attendance_seq conn), student_id = sid, date = today,
           time = current_time, status = st, a_created_at = db_now\<rparr>],
       attendance_seq := Suc (attendance_seq conn)\<rparr>"

text \<open>\<^verbatim>\<open>SELECT * FROM students WHERE barcode = ?\<close> with \<^verbatim>\<open>fetchone()\<close>: the first row found.\<close>

definition select_student_by_barcode :: "store \<Rightarrow> string \<Rightarrow> student option" where
  "select_student_by_barcode conn code = find (\<lambda>s. barcode s = code) (students conn)"

text \<open>\<^verbatim>\<open>SELECT * FROM attendance WHERE student_id = ? AND date = ?\<close> with \<^verbatim>\<open>fetchone()\<close>.\<close>

definition select_attendance :: "store \<Rightarrow> nat \<Rightarrow> string \<Rightarrow> attendance_record option" where
  "select_attendance conn sid today =
     find (\<lambda>a. student_id a = sid \<and> date a = today) (attendance conn)"

section \<open>Registration\<close>

text \<open>
  The department comes from a select box over six fixed options, so the form can only
  ever deliver one of them.
\<close>

datatype dept = CSE | ECE | MECH | CIVIL | EEE | IT

fun dept_option :: "dept \<Rightarrow> string" where
  "dept_option CSE = ''Computer Science and Engineering''"
| "dept_option ECE = ''Electronics and Communication Engineering''"
| "dept_option MECH = ''Mechanical Engineering''"
| "dept_option CIVIL = ''Civil Engineering''"
| "dept_option EEE = ''Electrical and Electronics Engineering''"
| "dept_option IT = ''Information Technology''"

definition department_options :: "string list" where
  "department_options =
     [''Computer Science and Engineering'', ''Electronics and Communication Engineering'',
      ''Mechanical Engineering'', ''Civil Engineering'',
      ''Electrical and Electronics Engineering'', ''Information Technology'']"

text \<open>
  What \<^verbatim>\<open>register_student\<close> shows: nothing before the form is submitted, the success box
  with the new barcode, the box for a registration number that exists already (the
  specification's DuplicateKey), the message for any other integrity error, or the box
  listing the required fields (the specification's ValidationError).
\<close>

datatype register_result =
    NotSubmitted
  | Registered string
  | RegistrationFailed string
  | DatabaseError string
  | IncompleteInformation

text \<open>
  \<^verbatim>\<open>register_student\<close>, from the form's values, the UUID drawn and the store's clock.
  An empty string is false in Python. The barcode is generated once; a refused insert
  is caught and reported, and the store is as before.
\<close>

definition register_student ::
  "store \<Rightarrow> bool \<Rightarrow> string \<Rightarrow> string \<Rightarrow> dept \<Rightarrow> string \<Rightarrow> 128 word \<Rightarrow> string
     \<Rightarrow> store \<times> register_result" where
  "register_student conn submit_button name rn dep phone u db_now =
     (if submit_button then
        if name \<noteq> [] \<and> rn \<noteq> [] \<and> dept_option dep \<noteq> [] \<and> phone \<noteq> [] then
          let code = generate_unique_barcode u
          in case insert_student conn name rn (dept_option dep) phone code db_now of
               Inr conn' \<Rightarrow> (conn', Registered code)
             | Inl (IntegrityError e) \<Rightarrow>
                 if str_in ''reg_no'' e then (conn, RegistrationFailed rn)
                 else (conn, DatabaseError e)
        else (conn, IncompleteInformation)
      else (conn, NotSubmitted))"

section \<open>Check-in\<close>

text \<open>
  What \<^verbatim>\<open>qr_scanner\<close> shows: nothing, the warning box (the student, with the time and
  status of the record found), the success box (the student, with the date, time and
  status just written), or the box for a code that matches no student.
\<close>

datatype scan_result =
    NoAction
  | AlreadyRecorded student string string
  | Recorded student string string string
  | UnknownIdentifier

text \<open>
  \<^verbatim>\<open>qr_scanner\<close>, from the button, the text pasted and the clock. The clock is read three
  times: for today's date, for the hour inside \<^verbatim>\<open>determine_attendance_status\<close>, and for
  the time of day; \<open>db_now\<close> is the store's own clock. The specification's
  \<open>record_checkin(scan_id, at_time)\<close> is this function with the button pressed and the
  three readings equal to \<open>at_time\<close>.
\<close>

definition qr_scanner ::
  "store \<Rightarrow> bool \<Rightarrow> string \<Rightarrow> datetime \<Rightarrow> datetime \<Rightarrow> datetime \<Rightarrow> string
     \<Rightarrow> store \<times> scan_result" where
  "qr_scanner conn scan_button scanned_code now1 now2 now3 db_now =
     (if scan_button \<and> scanned_code \<noteq> [] then
        case select_student_by_barcode conn (strip scanned_code) of
          Some s \<Rightarrow>
            let today = strftime_Ymd now1
            in (case select_attendance conn (s_id s) today of
                  Some existing_record \<Rightarrow>
                    (conn, AlreadyRecorded s (time existing_record) (status existing_record))
                | None \<Rightarrow>
                    let st = fst (determine_attendance_status now2);
                        current_time = strftime_HMS now3
                    in (insert_attendance conn (s_id s) today current_time st db_now,
                        Recorded s today current_time st))
        | None \<Rightarrow> (conn, UnknownIdentifier)
      else (conn, NoAction))"

section \<open>Reports\<close>

text \<open>One row of the report query: the six columns it selects.\<close>

record report_row =
  r_name :: string
  r_reg_no :: string
  r_department :: string
  r_date :: string
  r_time :: string
  r_status :: string

text \<open>
  The query of \<^verbatim>\<open>attendance_reports\<close>: attendance joined with its student, the date
  between the two bounds (both included, compared as text), for one department when a
  third parameter is given, latest first. A student's key is a primary key, so an
  attendance row joins with at most one student. Rows with the same date and time stay
  in the order of the table; SQLite leaves their order open.
\<close>

definition report_query :: "store \<Rightarrow> string \<Rightarrow> string \<Rightarrow> string option \<Rightarrow> report_row list" where
  "report_query conn lo hi dept_param =
     rev (sort_key (\<lambda>r. (r_date r, r_time r))
       [\<lparr>r_name = s_name s, r_reg_no = reg_no s, r_department = department s,
          r_date = date a, r_time = time a, r_status = status a\<rparr>.
        a \<leftarrow> attendance conn, s \<leftarrow> students conn, student_id a = s_id s,
        lo \<le> date a \<and> date a \<le> hi,
        case dept_param of None \<Rightarrow> True | Some d \<Rightarrow> department s = d])"

record summary =
  total_records :: nat
  present_count :: nat
  late_count :: nat
  absent_count :: nat

text \<open>The four metrics, counted on the rows of the report.\<close>

definition summary_statistics :: "report_row list \<Rightarrow> summary" where
  "summary_statistics report_data =
     \<lparr>total_records = length report_data,
      present_count = length (filter (\<lambda>r. r_status r = ''present'') report_data),
      late_count = length (filter (\<lambda>r. r_status r = ''late'') report_data),
      absent_count = length (filter (\<lambda>r. r_status r = ''absent'') report_data)\<rparr>"

datatype report_view = NotRequested | NoRecordsFound | Report summary "report_row list"

text \<open>
  \<^verbatim>\<open>attendance_reports\<close>: the two dates of the date inputs, and the department filter, where
  \<open>None\<close> is the entry \<^verbatim>\<open>All Departments\<close> of its select box.
\<close>

definition attendance_reports ::
  "store \<Rightarrow> bool \<Rightarrow> date_obj \<Rightarrow> date_obj \<Rightarrow> dept option \<Rightarrow> report_view" where
  "attendance_reports conn generate_report start_date end_date department_filter =
     (if generate_report then
        let report_data = report_query conn (strftime_Ymd start_date) (strftime_Ymd end_date)
                            (map_option dept_option department_filter)
        in if report_data \<noteq> [] then Report (summary_statistics report_data) report_data
           else NoRecordsFound
      else NotRequested)"

section \<open>Per-student statistics\<close>










section \<open>Reachable stores\<close>

text \<open>
  The stores the program can be in: the fresh database, and whatever a registration or a
  scan leaves, whatever was typed and whatever the clock and the generator gave. The
  report pages only read.
\<close>

inductive reachable :: "store \<Rightarrow> bool" where
  fresh: "reachable init_database"
| registration:
    "reachable conn \<Longrightarrow> reachable (fst (register_student conn b name rn dep phone u db_now))"
| scan:
    "reachable conn \<Longrightarrow> reachable (fst (qr_scanner conn b code now1 now2 now3 db_now))"

text \<open>What every barcode in a reachable store looks like: eight capital hexadecimal digits.\<close>

definition barcode_ok :: "string \<Rightarrow> bool" where
  "barcode_ok code \<longleftrightarrow> length code = 8 \<and> set code \<subseteq> set ''0123456789ABCDEF''"

definition students_ok :: "store \<Rightarrow> bool" where
  "students_ok conn \<longleftrightarrow>
     distinct (map barcode (students conn)) \<and>
     list_all (\<lambda>s. barcode_ok (barcode s)) (students conn)"

text \<open>The three values the status column takes.\<close>

definition status_ok :: "string \<Rightarrow> bool" where
  "status_ok st \<longleftrightarrow> st = ''present'' \<or> st = ''late'' \<or> st = ''absent''"

section \<open>A scenario\<close>

text \<open>
  Student A is registered with registration number CS001 in Computer Science and
  Engineering, and checks in on 2024-03-01 at 08:30:00.
\<close>

definition uuid_A :: "128 word" where
  "uuid_A = 0x3f2a9c41d7e54b1c8a6f0e5d4c3b2a19"

definition at_0830 :: datetime where
  "at_0830 = \<lparr>year = 2024, month = 3, day = 1, hour = 8, minute = 30, second = 0\<rparr>"

definition at_0915 :: datetime where
  "at_0915 = \<lparr>year = 2024, month = 3, day = 1, hour = 9, minute = 15, second = 0\<rparr>"

definition student_A :: student where
  "student_A =
     \<lparr>s_id = 1, s_name = ''A'', reg_no = ''CS001'',
      department = ''Computer Science and Engineering'', parent_phone = ''+1234567890'',
      barcode = ''3F2A9C41'', s_created_at = ''2024-02-28 10:00:00''\<rparr>"

definition store_A :: store where
  "store_A =
     fst (register_student init_database True ''A'' ''CS001'' CSE ''+1234567890'' uuid_A
            ''2024-02-28 10:00:00'')"

definition store_A1 :: store where
  "store_A1 =
     fst (qr_scanner store_A True ''3F2A9C41'' at_0830 at_0830 at_0830 ''2024-03-01 08:30:00'')"


text \<open>
  The scenario goes on: A checks in on 2024-03-04 at 10:05:00 and on 2024-03-05 at
  11:40:00, and then B is registered in Electronics and Communication Engineering.
\<close>

definition uuid_B :: "128 word" where
  "uuid_B = 0x9b1d04e7c2a84f3fb6d15a0e7c8f2d31"

definition at_mon_1005 :: datetime where
  "at_mon_1005 = \<lparr>year = 2024, month = 3, day = 4, hour = 10, minute = 5, second = 0\<rparr>"

definition at_tue_1140 :: datetime where
  "at_tue_1140 = \<lparr>year = 2024, month = 3, day = 5, hour = 11, minute = 40, second = 0\<rparr>"

definition student_B :: student where
  "student_B =
     \<lparr>s_id = 2, s_name = ''B'', reg_no = ''CS002'',
      department = ''Electronics and Communication Engineering'',
      parent_phone = ''+1987654321'', barcode = ''9B1D04E7'',
      s_created_at = ''2024-03-06 09:00:00''\<rparr>"

definition store_A3 :: store where
  "store_A3 =
     fst (qr_scanner
       (fst (qr_scanner store_A1 True ''3F2A9C41'' at_mon_1005 at_mon_1005 at_mon_1005
               ''2024-03-04 10:05:00''))
       True ''3F2A9C41'' at_tue_1140 at_tue_1140 at_tue_1140 ''2024-03-05 11:40:00'')"

definition store_AB :: store where
  "store_AB =
     fst (register_student store_A3 True ''B'' ''CS002'' ECE ''+1987654321'' uuid_B
            ''2024-03-06 09:00:00'')"


section \<open>Evaluating the scenario\<close>

lemmas eval_simps =
  register_student_def insert_student_def init_database_def qr_scanner_def
  select_student_by_barcode_def select_attendance_def insert_attendance_def
  determine_attendance_status_def strftime_Ymd_def strftime_HMS_def dec2_def dec4_def
  digit_def strip_def isspace_def Let_def

lemma barcode_A: "generate_unique_barcode uuid_A = ''3F2A9C41''"
  by (simp add: uuid_A_def generate_unique_barcode_def uuid_str_def hex32_def hex_digit_def
      upper_def upper_char_def upt_rec)

lemma store_A_eq:
  "store_A = \<lparr>students = [student_A], students_seq = 1, attendance = [], attendance_seq = 0\<rparr>"
  by (simp add: store_A_def student_A_def barcode_A eval_simps)

lemma store_A1_eq:
  "store_A1 =
     \<lparr>students = [student_A], students_seq = 1,
      attendance = [\<lparr>a_id = 1, student_id = 1, date = ''2024-03-01'', time = ''08:30:00'',
                     status = ''present'', a_created_at = ''2024-03-01 08:30:00''\<rparr>],
      attendance_seq = 1\<rparr>"
  by (simp add: store_A1_def store_A_eq student_A_def at_0830_def eval_simps)

lemma reachable_store_A: "reachable store_A"
  unfolding store_A_def by (intro reachable.intros)

lemma reachable_store_A1: "reachable store_A1"
  unfolding store_A1_def by (intro reachable.intros reachable_store_A)

section \<open>Frame lemmas\<close>

lemma register_student_attendance:
  "attendance (fst (register_student conn b name rn dep phone u db_now)) = attendance conn"
  by (simp add: register_student_def insert_student_def Let_def split: sum.splits exn.splits)

lemma qr_scanner_students:
  "students (fst (qr_scanner conn b code now1 now2 now3 db_now)) = students conn"
  by (simp add: qr_scanner_def insert_attendance_def Let_def split: option.splits)

section \<open>At most one record for a student and a date\<close>

lemma qr_scanner_keys_distinct:
  assumes "distinct (map (\<lambda>a. (student_id a, date a)) (attendance conn))"
  shows "distinct (map (\<lambda>a. (student_id a, date a))
           (attendance (fst (qr_scanner conn b code now1 now2 now3 db_now))))"
  using assms
  by (auto simp: qr_scanner_def insert_attendance_def select_attendance_def
      Let_def find_None_iff split: option.splits)

lemma reachable_keys_distinct:
  "reachable conn \<Longrightarrow> distinct (map (\<lambda>a. (student_id a, date a)) (attendance conn))"
proof (induction rule: reachable.induct)
  case fresh
  show ?case by (simp add: init_database_def)
next
  case (registration conn b name rn dep phone u db_now)
  then show ?case by (simp add: register_student_attendance)
next
  case (scan conn b code now1 now2 now3 db_now)
  from scan.IH show ?case by (rule qr_scanner_keys_distinct)
qed

lemma distinct_key_count:
  "distinct (map f xs) \<Longrightarrow> length (filter (\<lambda>x. f x = k) xs) \<le> 1"
proof (induction xs)
  case Nil
  show ?case by simp
next
  case (Cons x xs)
  show ?case
  proof (cases "f x = k")
    case True
    with Cons.prems have "k \<notin> f ` set xs" by auto
    then have "filter (\<lambda>x. f x = k) xs = []" by (auto simp: filter_empty_conv)
    with True show ?thesis by simp
  next
    case False
    with Cons show ?thesis by simp
  qed
qed

text \<open>
  C1. In every store reachable from the fresh database by registrations and scans, in
  any number and order and with any inputs, the attendance table holds at most one row
  for each pair of a student key and a date. Submitting the same check-in again is one
  more scan, so it cannot add a second row for the pair.
\<close>

theorem one_record_per_student_and_date:
  assumes "reachable conn"
  shows "length (filter (\<lambda>a. student_id a = sid \<and> date a = d) (attendance conn)) \<le> 1"
proof -
  from assms have "distinct (map (\<lambda>a. (student_id a, date a)) (attendance conn))"
    by (rule reachable_keys_distinct)
  then have "length (filter (\<lambda>a. (student_id a, date a) = (sid, d)) (attendance conn)) \<le> 1"
    by (rule distinct_key_count)
  then show ?thesis by simp
qed

text \<open>
  The store after A's check-in, scanned once more at 09:15 the same day, is reachable and
  still holds one row for A on that date.
\<close>

theorem one_record_per_student_and_date_witness:
  "reachable (fst (qr_scanner store_A1 True ''3F2A9C41'' at_0915 at_0915 at_0915 ''t''))
   \<and> length (filter (\<lambda>a. student_id a = 1 \<and> date a = ''2024-03-01'')
        (attendance (fst (qr_scanner store_A1 True ''3F2A9C41'' at_0915 at_0915 at_0915 ''t''))))
     = 1"
proof -
  let ?conn = "fst (qr_scanner store_A1 True ''3F2A9C41'' at_0915 at_0915 at_0915 ''t'')"
  have r: "reachable ?conn"
    by (intro reachable.intros reachable_store_A1)
  have "length (filter (\<lambda>a. student_id a = 1 \<and> date a = ''2024-03-01'') (attendance ?conn)) \<ge> 1"
    by (simp add: store_A1_eq student_A_def at_0915_def eval_simps)
  with one_record_per_student_and_date [OF r, of 1 "''2024-03-01''"] r show ?thesis
    by simp
qed

section \<open>The status of a check-in\<close>

text \<open>
  C3. The status depends on the hour of the reading and on nothing else: an hour up to 9
  gives present, hour 10 gives late, any later hour gives absent, and two readings with
  the same hour give the same result whatever their minutes and seconds.
\<close>

theorem status_is_a_function_of_the_hour:
  fixes now t :: datetime
  shows "(hour now \<le> 9 \<longrightarrow> fst (determine_attendance_status now) = ''present'')
       \<and> (9 < hour now \<and> hour now \<le> 10 \<longrightarrow> fst (determine_attendance_status now) = ''late'')
       \<and> (10 < hour now \<longrightarrow> fst (determine_attendance_status now) = ''absent'')
       \<and> (hour t = hour now \<longrightarrow>
            determine_attendance_status t = determine_attendance_status now)"
  by (simp add: determine_attendance_status_def)

text \<open>Hours 9, 10, 11 and 0, with minutes and seconds set to show that they do not count.\<close>

theorem status_is_a_function_of_the_hour_witness:
  "fst (determine_attendance_status (at_0830\<lparr>hour := 9, minute := 59, second := 59\<rparr>)) = ''present''
   \<and> fst (determine_attendance_status (at_0830\<lparr>hour := 10, minute := 0, second := 1\<rparr>)) = ''late''
   \<and> fst (determine_attendance_status (at_0830\<lparr>hour := 11, minute := 0, second := 0\<rparr>)) = ''absent''
   \<and> fst (determine_attendance_status (at_0830\<lparr>hour := 0, minute := 0, second := 0\<rparr>)) = ''present''
   \<and> determine_attendance_status (at_0830\<lparr>hour := 9, minute := 59, second := 59\<rparr>)
       = determine_attendance_status (at_0830\<lparr>hour := 9, minute := 0, second := 0\<rparr>)"
  using status_is_a_function_of_the_hour
      [of "at_0830\<lparr>hour := 9, minute := 0, second := 0\<rparr>"
          "at_0830\<lparr>hour := 9, minute := 59, second := 59\<rparr>"]
    status_is_a_function_of_the_hour
      [of "at_0830\<lparr>hour := 10, minute := 0, second := 1\<rparr>"
          "at_0830\<lparr>hour := 10, minute := 0, second := 1\<rparr>"]
    status_is_a_function_of_the_hour
      [of "at_0830\<lparr>hour := 11, minute := 0, second := 0\<rparr>"
          "at_0830\<lparr>hour := 11, minute := 0, second := 0\<rparr>"]
    status_is_a_function_of_the_hour
      [of "at_0830\<lparr>hour := 0, minute := 0, second := 0\<rparr>"
          "at_0830\<lparr>hour := 0, minute := 0, second := 0\<rparr>"]
  by simp

section \<open>Stripping whitespace\<close>

lemma dropWhile_hd: "xs \<noteq> [] \<Longrightarrow> \<not> P (hd xs) \<Longrightarrow> dropWhile P xs = xs"
  by (cases xs) auto


lemma strip_no_space:
  assumes "\<forall>c\<in>set s. \<not> isspace c"
  shows "strip s = s"
proof (cases "s = []")
  case True
  then show ?thesis by (simp add: strip_def)
next
  case False
  with assms have "\<not> isspace (hd s)" by simp
  with False have 1: "dropWhile isspace s = s" by (rule dropWhile_hd)
  from False assms have "\<not> isspace (hd (rev s))" by (simp add: hd_rev)
  with False have 2: "dropWhile isspace (rev s) = rev s" by (intro dropWhile_hd) simp_all
  show ?thesis unfolding strip_def 1 2 by simp
qed

section \<open>The barcodes of a reachable store\<close>

lemma length_hex32: "length (hex32 u) = 32"
  by (simp add: hex32_def)

lemma upper_hex_digit_all:
  "\<forall>n\<in>set [0..<16]. upper_char (hex_digit n) \<in> set ''0123456789ABCDEF''"
  by (simp add: upt_rec hex_digit_def upper_char_def)

lemma upper_hex_digit: "upper_char (hex_digit n) \<in> set ''0123456789ABCDEF''"
proof -
  have "n mod 16 \<in> set [0..<16]" by simp
  with upper_hex_digit_all have "upper_char (hex_digit (n mod 16)) \<in> set ''0123456789ABCDEF''"
    by blast
  then show ?thesis by (simp add: hex_digit_def)
qed

lemma generate_unique_barcode_ok: "barcode_ok (generate_unique_barcode u)"
proof -
  have "length (generate_unique_barcode u) = 8"
    by (simp add: generate_unique_barcode_def uuid_str_def upper_def Let_def length_hex32)
  moreover have "set (generate_unique_barcode u) \<subseteq> set (upper (hex32 u))"
    by (auto simp add: generate_unique_barcode_def uuid_str_def upper_def Let_def length_hex32
        dest: in_set_takeD)
  moreover have "set (upper (hex32 u)) \<subseteq> set ''0123456789ABCDEF''"
    unfolding upper_def hex32_def using upper_hex_digit by (auto simp del: set_simps)
  ultimately show ?thesis unfolding barcode_ok_def by blast
qed

lemma hex_upper_no_space: "\<forall>c\<in>set ''0123456789ABCDEF''. \<not> isspace c"
  by (simp add: isspace_def)

lemma barcode_ok_strip: "barcode_ok code \<Longrightarrow> strip code = code"
  using hex_upper_no_space by (intro strip_no_space) (auto simp: barcode_ok_def)

lemma barcode_ok_not_empty: "barcode_ok code \<Longrightarrow> code \<noteq> []"
  by (auto simp: barcode_ok_def)

lemma register_student_students_ok:
  assumes "students_ok conn"
  shows "students_ok (fst (register_student conn b name rn dep phone u db_now))"
  using assms generate_unique_barcode_ok [of u]
  by (auto simp: register_student_def insert_student_def students_ok_def Let_def
      split: sum.splits exn.splits if_splits)

lemma reachable_students_ok: "reachable conn \<Longrightarrow> students_ok conn"
proof (induction rule: reachable.induct)
  case fresh
  show ?case by (simp add: students_ok_def init_database_def)
next
  case (registration conn b name rn dep phone u db_now)
  from registration.IH show ?case by (rule register_student_students_ok)
next
  case (scan conn b code now1 now2 now3 db_now)
  from scan.IH show ?case by (simp add: students_ok_def qr_scanner_students)
qed

text \<open>The keys of the students are distinct, as a primary key must be.\<close>

lemma register_student_keys:
  assumes "distinct (map s_id (students conn))"
    and "list_all (\<lambda>s. s_id s \<le> students_seq conn) (students conn)"
  shows "distinct (map s_id (students (fst (register_student conn b name rn dep phone u db_now))))
       \<and> list_all (\<lambda>s. s_id s \<le> students_seq (fst (register_student conn b name rn dep phone u db_now)))
           (students (fst (register_student conn b name rn dep phone u db_now)))"
  using assms
  by (auto simp: register_student_def insert_student_def Let_def list_all_iff
      split: sum.splits exn.splits if_splits)

lemma qr_scanner_students_seq:
  "students_seq (fst (qr_scanner conn b code now1 now2 now3 db_now)) = students_seq conn"
  by (simp add: qr_scanner_def insert_attendance_def Let_def split: option.splits)

lemma reachable_student_keys:
  "reachable conn \<Longrightarrow>
   distinct (map s_id (students conn))
   \<and> list_all (\<lambda>s. s_id s \<le> students_seq conn) (students conn)"
proof (induction rule: reachable.induct)
  case fresh
  show ?case by (simp add: init_database_def)
next
  case (registration conn b name rn dep phone u db_now)
  then show ?case by (intro register_student_keys) simp_all
next
  case (scan conn b code now1 now2 now3 db_now)
  then show ?case by (simp add: qr_scanner_students qr_scanner_students_seq)
qed

lemma find_distinct_key:
  "distinct (map f xs) \<Longrightarrow> x \<in> set xs \<Longrightarrow> find (\<lambda>y. f y = f x) xs = Some x"
  by (induction xs) auto

lemma select_registered_student:
  assumes "students_ok conn" and "s \<in> set (students conn)"
  shows "select_student_by_barcode conn (barcode s) = Some s"
  using assms by (simp add: select_student_by_barcode_def students_ok_def find_distinct_key)

lemma registered_barcode_ok:
  assumes "students_ok conn" and "s \<in> set (students conn)"
  shows "barcode_ok (barcode s)"
  using assms by (auto simp: students_ok_def list_all_iff)

section \<open>What a scan answers\<close>

lemma qr_scanner_found:
  assumes "code \<noteq> []" and "select_student_by_barcode conn (strip code) = Some s"
  shows "qr_scanner conn True code now1 now2 now3 db_now =
     (case select_attendance conn (s_id s) (strftime_Ymd now1) of
        Some existing_record \<Rightarrow>
          (conn, AlreadyRecorded s (time existing_record) (status existing_record))
      | None \<Rightarrow>
          (insert_attendance conn (s_id s) (strftime_Ymd now1) (strftime_HMS now3)
             (fst (determine_attendance_status now2)) db_now,
           Recorded s (strftime_Ymd now1) (strftime_HMS now3)
             (fst (determine_attendance_status now2))))"
  using assms by (simp add: qr_scanner_def Let_def split: option.splits)

lemma find_append_None: "find P xs = None \<Longrightarrow> find P (xs @ ys) = find P ys"
  by (induction xs) (auto split: if_splits)

lemma select_attendance_None_iff:
  "select_attendance conn sid d = None \<longleftrightarrow>
   filter (\<lambda>a. student_id a = sid \<and> date a = d) (attendance conn) = []"
  by (auto simp: select_attendance_def find_None_iff filter_empty_conv)

lemma scan_of_registered_student:
  assumes "reachable conn" and "s \<in> set (students conn)"
  shows "qr_scanner conn True (barcode s) now1 now2 now3 db_now =
     (case select_attendance conn (s_id s) (strftime_Ymd now1) of
        Some existing_record \<Rightarrow>
          (conn, AlreadyRecorded s (time existing_record) (status existing_record))
      | None \<Rightarrow>
          (insert_attendance conn (s_id s) (strftime_Ymd now1) (strftime_HMS now3)
             (fst (determine_attendance_status now2)) db_now,
           Recorded s (strftime_Ymd now1) (strftime_HMS now3)
             (fst (determine_attendance_status now2))))"
proof -
  from assms(1) have ok: "students_ok conn" by (rule reachable_students_ok)
  from ok assms(2) have bc: "barcode_ok (barcode s)" by (rule registered_barcode_ok)
  then have ne: "barcode s \<noteq> []" and st: "strip (barcode s) = barcode s"
    by (simp_all add: barcode_ok_not_empty barcode_ok_strip)
  from ok assms(2) have "select_student_by_barcode conn (strip (barcode s)) = Some s"
    by (simp add: st select_registered_student)
  with ne show ?thesis by (rule qr_scanner_found)
qed

lemma select_attendance_Some:
  assumes "select_attendance conn sid d = Some e"
  shows "e \<in> set (attendance conn) \<and> student_id e = sid \<and> date e = d"
  using assms by (auto simp: select_attendance_def find_Some_iff)

lemma select_attendance_after_insert:
  assumes "select_attendance conn sid d = None"
  shows "select_attendance (insert_attendance conn sid d tm st db_now) sid d =
           Some \<lparr>a_id = Suc (attendance_seq conn), student_id = sid, date = d,
                  time = tm, status = st, a_created_at = db_now\<rparr>"
  using assms by (simp add: select_attendance_def insert_attendance_def find_append_None)

text \<open>
  C2. A registered student's barcode is scanned twice on one date, in a reachable store.
  If the student had no record for that date, the first scan answers Recorded and the
  second AlreadyRecorded with the time and status the first one wrote. In every case the
  second scan answers AlreadyRecorded with the time and status of a record of that
  student and date in the table, it leaves the store as the first scan left it, and
  the table then holds exactly one record for that student and date.
\<close>

theorem checkin_twice_on_a_date:
  assumes reach: "reachable conn"
    and reg: "s \<in> set (students conn)"
    and same_date: "strftime_Ymd now1' = strftime_Ymd now1"
    and c1: "qr_scanner conn True (barcode s) now1 now2 now3 db_now = (conn1, r1)"
    and c2: "qr_scanner conn1 True (barcode s) now1' now2' now3' db_now' = (conn2, r2)"
  shows "(filter (\<lambda>a. student_id a = s_id s \<and> date a = strftime_Ymd now1) (attendance conn) = []
            \<longrightarrow> r1 = Recorded s (strftime_Ymd now1) (strftime_HMS now3)
                        (fst (determine_attendance_status now2))
                \<and> r2 = AlreadyRecorded s (strftime_HMS now3)
                        (fst (determine_attendance_status now2)))
       \<and> (\<exists>e\<in>set (attendance conn1).
             student_id e = s_id s \<and> date e = strftime_Ymd now1
             \<and> r2 = AlreadyRecorded s (time e) (status e))
       \<and> conn2 = conn1
       \<and> length (filter (\<lambda>a. student_id a = s_id s \<and> date a = strftime_Ymd now1)
            (attendance conn2)) = 1"
proof -
  let ?d = "strftime_Ymd now1"
  let ?tm = "strftime_HMS now3"
  let ?st = "fst (determine_attendance_status now2)"
  let ?mine = "\<lambda>a. student_id a = s_id s \<and> date a = ?d"
  have r1: "filter ?mine (attendance conn) = [] \<longrightarrow> r1 = Recorded s ?d ?tm ?st"
    using c1 by (auto simp: scan_of_registered_student [OF reach reg]
        select_attendance_None_iff [symmetric])
  from c1 have "conn1 = fst (qr_scanner conn True (barcode s) now1 now2 now3 db_now)"
    by simp
  with reach have reach1: "reachable conn1"
    by (simp add: reachable.scan)
  from reg c1 have reg1: "s \<in> set (students conn1)"
    using qr_scanner_students [of conn True "barcode s" now1 now2 now3 db_now] by simp
  have "\<exists>e. select_attendance conn1 (s_id s) ?d = Some e"
  proof (cases "select_attendance conn (s_id s) ?d")
    case None
    with c1 have "conn1 = insert_attendance conn (s_id s) ?d ?tm ?st db_now"
      by (simp add: scan_of_registered_student [OF reach reg])
    with None show ?thesis by (simp add: select_attendance_after_insert)
  next
    case (Some e)
    with c1 have "conn1 = conn"
      by (simp add: scan_of_registered_student [OF reach reg])
    with Some show ?thesis by simp
  qed
  then obtain e where e: "select_attendance conn1 (s_id s) ?d = Some e" ..
  then have e_in: "e \<in> set (attendance conn1)" and e_key: "student_id e = s_id s" "date e = ?d"
    by (simp_all add: select_attendance_Some)
  from c2 e have conn2: "conn2 = conn1" and r2: "r2 = AlreadyRecorded s (time e) (status e)"
    by (simp_all add: scan_of_registered_student [OF reach1 reg1] same_date)
  have r2_new: "filter ?mine (attendance conn) = [] \<longrightarrow> r2 = AlreadyRecorded s ?tm ?st"
  proof
    assume "filter ?mine (attendance conn) = []"
    then have none: "select_attendance conn (s_id s) ?d = None"
      by (simp add: select_attendance_None_iff)
    with c1 have "conn1 = insert_attendance conn (s_id s) ?d ?tm ?st db_now"
      by (simp add: scan_of_registered_student [OF reach reg])
    with none e have "time e = ?tm" "status e = ?st"
      by (auto simp: select_attendance_after_insert)
    with r2 show "r2 = AlreadyRecorded s ?tm ?st" by simp
  qed
  from e_in e_key have "filter ?mine (attendance conn1) \<noteq> []"
    by (auto simp: filter_empty_conv)
  then have "1 \<le> length (filter ?mine (attendance conn1))"
    by (cases "filter ?mine (attendance conn1)") simp_all
  moreover from reach1 have "distinct (map (\<lambda>a. (student_id a, date a)) (attendance conn1))"
    by (rule reachable_keys_distinct)
  then have "length (filter (\<lambda>a. (student_id a, date a) = (s_id s, ?d)) (attendance conn1)) \<le> 1"
    by (rule distinct_key_count)
  ultimately have "length (filter ?mine (attendance conn1)) = 1" by simp
  with r1 r2_new r2 conn2 e_in e_key show ?thesis by blast
qed

text \<open>
  The scenario: A scans at 08:30 and again at 09:15 on 2024-03-01; the second answer
  carries 08:30:00 and present.
\<close>

theorem checkin_twice_on_a_date_witness:
  "reachable store_A \<and> student_A \<in> set (students store_A)
   \<and> strftime_Ymd at_0915 = strftime_Ymd at_0830
   \<and> filter (\<lambda>a. student_id a = s_id student_A \<and> date a = strftime_Ymd at_0830)
        (attendance store_A) = []
   \<and> qr_scanner store_A True (barcode student_A) at_0830 at_0830 at_0830 ''2024-03-01 08:30:00''
       = (store_A1, Recorded student_A ''2024-03-01'' ''08:30:00'' ''present'')
   \<and> qr_scanner store_A1 True (barcode student_A) at_0915 at_0915 at_0915 ''2024-03-01 09:15:00''
       = (store_A1, AlreadyRecorded student_A ''08:30:00'' ''present'')
   \<and> length (filter (\<lambda>a. student_id a = s_id student_A \<and> date a = strftime_Ymd at_0830)
        (attendance store_A1)) = 1"
proof -
  have reg: "student_A \<in> set (students store_A)"
    by (simp add: store_A_eq)
  have same: "strftime_Ymd at_0915 = strftime_Ymd at_0830"
    by (simp add: at_0915_def at_0830_def strftime_Ymd_def)
  have none: "filter (\<lambda>a. student_id a = s_id student_A \<and> date a = strftime_Ymd at_0830)
        (attendance store_A) = []"
    by (simp add: store_A_eq)
  have c1: "qr_scanner store_A True (barcode student_A) at_0830 at_0830 at_0830
        ''2024-03-01 08:30:00''
      = (store_A1, Recorded student_A ''2024-03-01'' ''08:30:00'' ''present'')"
    by (simp add: store_A1_eq) (simp add: store_A_eq student_A_def at_0830_def eval_simps)
  have c2: "qr_scanner store_A1 True (barcode student_A) at_0915 at_0915 at_0915
        ''2024-03-01 09:15:00''
      = (store_A1, AlreadyRecorded student_A ''08:30:00'' ''present'')"
    by (simp add: store_A1_eq student_A_def at_0915_def eval_simps)
  from checkin_twice_on_a_date [OF reachable_store_A reg same c1 c2] reg same none c1 c2
    reachable_store_A
  show ?thesis by simp
qed


text \<open>
  C5, as amended. A scanned code that is not empty and that, stripped, is the barcode of
  no student gets the answer UnknownIdentifier, and the store is unchanged. An empty
  code is not looked up at all: the guard of \<^verbatim>\<open>qr_scanner\<close> skips it, nothing is shown
  and the store is unchanged.
\<close>

theorem unknown_code_writes_nothing:
  "(scan_button \<and> scanned_code \<noteq> []
      \<and> select_student_by_barcode conn (strip scanned_code) = None
      \<longrightarrow> qr_scanner conn scan_button scanned_code now1 now2 now3 db_now
            = (conn, UnknownIdentifier))
   \<and> (scanned_code = []
      \<longrightarrow> qr_scanner conn scan_button scanned_code now1 now2 now3 db_now = (conn, NoAction))"
  by (simp add: qr_scanner_def)

text \<open>
  In the scenario's store the code UNKNOWN is answered with UnknownIdentifier and the
  empty code with nothing.
\<close>

theorem unknown_code_writes_nothing_witness:
  "select_student_by_barcode store_A1 (strip ''UNKNOWN'') = None
   \<and> qr_scanner store_A1 True ''UNKNOWN'' at_0915 at_0915 at_0915 ''t'' = (store_A1, UnknownIdentifier)
   \<and> qr_scanner store_A1 True [] at_0915 at_0915 at_0915 ''t'' = (store_A1, NoAction)"
proof -
  have "select_student_by_barcode store_A1 (strip ''UNKNOWN'') = None"
    by (simp add: store_A1_eq student_A_def select_student_by_barcode_def strip_def isspace_def)
  with unknown_code_writes_nothing
      [of True "''UNKNOWN''" store_A1 at_0915 at_0915 at_0915 "''t''"]
    unknown_code_writes_nothing [of True "[]" store_A1 at_0915 at_0915 at_0915 "''t''"]
  show ?thesis by simp
qed

text \<open>
  C5 as stated fails at the empty code: it matches no student, and the answer is not
  UnknownIdentifier.
\<close>

theorem empty_code_counterexample:
  "select_student_by_barcode store_A1 (strip []) = None
   \<and> snd (qr_scanner store_A1 True [] at_0915 at_0915 at_0915 ''t'') \<noteq> UnknownIdentifier"
  by (simp add: store_A1_eq student_A_def select_student_by_barcode_def strip_def qr_scanner_def)



section \<open>What a registration answers\<close>




text \<open>The four outcomes of a submitted form, by the state of the store.\<close>

lemma register_student_incomplete:
  "name = [] \<or> rn = [] \<or> phone = [] \<Longrightarrow>
   register_student conn True name rn dep phone u db_now = (conn, IncompleteInformation)"
  by (auto simp: register_student_def)

lemma dept_option_not_empty: "dept_option dep \<noteq> []"
  by (cases dep) simp_all










text \<open>
  C7. A submitted form with an empty name, registration number or parent phone is
  answered with the box listing the required fields, and the store is unchanged. The
  department is always one of the six options of the select box, none of them empty.
  The store changes only when the three text fields are filled in.
\<close>

theorem incomplete_form_is_rejected:
  "(name = [] \<or> rn = [] \<or> phone = []
      \<longrightarrow> register_student conn True name rn dep phone u db_now = (conn, IncompleteInformation))
   \<and> dept_option dep \<in> set department_options
   \<and> dept_option dep \<noteq> []
   \<and> (fst (register_student conn b name rn dep phone u db_now) \<noteq> conn
      \<longrightarrow> name \<noteq> [] \<and> rn \<noteq> [] \<and> phone \<noteq> [])"
proof -
  have "dept_option dep \<in> set department_options"
    by (cases dep) (simp_all add: department_options_def)
  moreover have "fst (register_student conn b name rn dep phone u db_now) \<noteq> conn
      \<longrightarrow> name \<noteq> [] \<and> rn \<noteq> [] \<and> phone \<noteq> []"
    by (auto simp: register_student_def split: if_splits)
  ultimately show ?thesis
    by (simp add: register_student_incomplete dept_option_not_empty)
qed

text \<open>
  Each of the three text fields left empty in turn, and A's complete form, which does
  change the store.
\<close>

theorem incomplete_form_is_rejected_witness:
  "register_student store_A True '''' ''CS002'' ECE ''+1987654321'' 0 ''t''
     = (store_A, IncompleteInformation)
   \<and> register_student store_A True ''B'' '''' ECE ''+1987654321'' 0 ''t''
     = (store_A, IncompleteInformation)
   \<and> register_student store_A True ''B'' ''CS002'' ECE '''' 0 ''t''
     = (store_A, IncompleteInformation)
   \<and> fst (register_student init_database True ''A'' ''CS001'' CSE ''+1234567890'' uuid_A
       ''2024-02-28 10:00:00'') \<noteq> init_database"
proof -
  have "fst (register_student init_database True ''A'' ''CS001'' CSE ''+1234567890'' uuid_A
       ''2024-02-28 10:00:00'') \<noteq> init_database"
    using store_A_eq by (simp add: store_A_def init_database_def)
  with incomplete_form_is_rejected [of "''''" "''CS002''" "''+1987654321''" store_A ECE 0 "''t''"]
    incomplete_form_is_rejected [of "''B''" "''''" "''+1987654321''" store_A ECE 0 "''t''"]
    incomplete_form_is_rejected [of "''B''" "''CS002''" "''''" store_A ECE 0 "''t''"]
    incomplete_form_is_rejected [of "''A''" "''CS001''" "''+1234567890''" init_database CSE uuid_A
      "''2024-02-28 10:00:00''" True]
  show ?thesis by simp
qed

section \<open>The summary of a report\<close>

lemma determine_attendance_status_ok: "status_ok (fst (determine_attendance_status now))"
  by (simp add: determine_attendance_status_def status_ok_def Let_def)

lemma qr_scanner_status_ok:
  assumes "list_all (\<lambda>a. status_ok (status a)) (attendance conn)"
  shows "list_all (\<lambda>a. status_ok (status a))
           (attendance (fst (qr_scanner conn b code now1 now2 now3 db_now)))"
  using assms determine_attendance_status_ok [of now2]
  by (simp add: qr_scanner_def insert_attendance_def Let_def split: option.splits)

lemma reachable_status_ok:
  "reachable conn \<Longrightarrow> list_all (\<lambda>a. status_ok (status a)) (attendance conn)"
proof (induction rule: reachable.induct)
  case fresh
  show ?case by (simp add: init_database_def)
next
  case (registration conn b name rn dep phone u db_now)
  then show ?case by (simp add: register_student_attendance)
next
  case (scan conn b code now1 now2 now3 db_now)
  from scan.IH show ?case by (rule qr_scanner_status_ok)
qed

lemma report_query_status:
  assumes "list_all (\<lambda>a. status_ok (status a)) (attendance conn)"
  shows "list_all (\<lambda>r. status_ok (r_status r)) (report_query conn lo hi dept_param)"
  using assms by (auto simp: report_query_def list_all_iff)

lemma three_way_count:
  assumes "list_all (\<lambda>r. status_ok (f r)) rows"
  shows "length (filter (\<lambda>r. f r = ''present'') rows)
       + length (filter (\<lambda>r. f r = ''late'') rows)
       + length (filter (\<lambda>r. f r = ''absent'') rows) = length rows"
  using assms by (induction rows) (auto simp: status_ok_def)

text \<open>
  C8. In a reachable store, for any two bounds and with or without a department, the
  three status counts of the summary add up to its total, and the total is the number
  of rows of the report. This holds for the query on any text bounds and for the page
  on any two dates.
\<close>

theorem summary_counts_partition_the_total:
  assumes "reachable conn"
  shows "(let sm = summary_statistics (report_query conn lo hi dept_param)
          in present_count sm + late_count sm + absent_count sm = total_records sm)
       \<and> (attendance_reports conn b start_date end_date department_filter = Report sm' rows
            \<longrightarrow> present_count sm' + late_count sm' + absent_count sm' = total_records sm'
                \<and> total_records sm' = length rows)"
proof -
  from assms have ok: "list_all (\<lambda>a. status_ok (status a)) (attendance conn)"
    by (rule reachable_status_ok)
  have count: "present_count (summary_statistics (report_query conn l h p))
      + late_count (summary_statistics (report_query conn l h p))
      + absent_count (summary_statistics (report_query conn l h p))
      = total_records (summary_statistics (report_query conn l h p))" for l h p
    using three_way_count [OF report_query_status [OF ok, of l h p]]
    by (simp add: summary_statistics_def)
  then show ?thesis
    by (auto simp: attendance_reports_def Let_def summary_statistics_def split: if_splits)
qed

section \<open>Evaluating the longer scenario\<close>

lemma barcode_B: "generate_unique_barcode uuid_B = ''9B1D04E7''"
  by (simp add: uuid_B_def generate_unique_barcode_def uuid_str_def hex32_def hex_digit_def
      upper_def upper_char_def upt_rec)

lemma store_A3_eq:
  "store_A3 =
     \<lparr>students = [student_A], students_seq = 1,
      attendance =
        [\<lparr>a_id = 1, student_id = 1, date = ''2024-03-01'', time = ''08:30:00'',
           status = ''present'', a_created_at = ''2024-03-01 08:30:00''\<rparr>,
         \<lparr>a_id = 2, student_id = 1, date = ''2024-03-04'', time = ''10:05:00'',
           status = ''late'', a_created_at = ''2024-03-04 10:05:00''\<rparr>,
         \<lparr>a_id = 3, student_id = 1, date = ''2024-03-05'', time = ''11:40:00'',
           status = ''absent'', a_created_at = ''2024-03-05 11:40:00''\<rparr>],
      attendance_seq = 3\<rparr>"
  by (simp add: store_A3_def store_A1_eq student_A_def at_mon_1005_def at_tue_1140_def eval_simps)

lemma store_AB_eq:
  "store_AB =
     \<lparr>students = [student_A, student_B], students_seq = 2,
      attendance =
        [\<lparr>a_id = 1, student_id = 1, date = ''2024-03-01'', time = ''08:30:00'',
           status = ''present'', a_created_at = ''2024-03-01 08:30:00''\<rparr>,
         \<lparr>a_id = 2, student_id = 1, date = ''2024-03-04'', time = ''10:05:00'',
           status = ''late'', a_created_at = ''2024-03-04 10:05:00''\<rparr>,
         \<lparr>a_id = 3, student_id = 1, date = ''2024-03-05'', time = ''11:40:00'',
           status = ''absent'', a_created_at = ''2024-03-05 11:40:00''\<rparr>],
      attendance_seq = 3\<rparr>"
  by (simp add: store_AB_def store_A3_eq student_A_def student_B_def barcode_B eval_simps)

lemma reachable_store_AB: "reachable store_AB"
  unfolding store_AB_def store_A3_def by (intro reachable.intros reachable_store_A1)




lemma report_store_AB:
  "attendance_reports store_AB True \<lparr>year = 2024, month = 3, day = 1\<rparr>
       \<lparr>year = 2024, month = 3, day = 4\<rparr> None =
     Report \<lparr>total_records = 2, present_count = 1, late_count = 1, absent_count = 0\<rparr>
       [\<lparr>r_name = ''A'', r_reg_no = ''CS001'', r_department = ''Computer Science and Engineering'',
          r_date = ''2024-03-04'', r_time = ''10:05:00'', r_status = ''late''\<rparr>,
        \<lparr>r_name = ''A'', r_reg_no = ''CS001'', r_department = ''Computer Science and Engineering'',
          r_date = ''2024-03-01'', r_time = ''08:30:00'', r_status = ''present''\<rparr>]"
  by (simp add: store_AB_eq attendance_reports_def report_query_def summary_statistics_def
      student_A_def student_B_def strftime_Ymd_def dec2_def dec4_def digit_def Let_def)


text \<open>
  The report on 2024-03-01 to 2024-03-04 for all departments in the longer scenario: two
  rows, one present and one late.
\<close>

theorem summary_counts_partition_the_total_witness:
  "reachable store_AB
   \<and> attendance_reports store_AB True \<lparr>year = 2024, month = 3, day = 1\<rparr>
       \<lparr>year = 2024, month = 3, day = 4\<rparr> None =
     Report \<lparr>total_records = 2, present_count = 1, late_count = 1, absent_count = 0\<rparr>
       [\<lparr>r_name = ''A'', r_reg_no = ''CS001'', r_department = ''Computer Science and Engineering'',
          r_date = ''2024-03-04'', r_time = ''10:05:00'', r_status = ''late''\<rparr>,
        \<lparr>r_name = ''A'', r_reg_no = ''CS001'', r_department = ''Computer Science and Engineering'',
          r_date = ''2024-03-01'', r_time = ''08:30:00'', r_status = ''present''\<rparr>]
   \<and> present_count \<lparr>total_records = 2, present_count = 1, late_count = 1, absent_count = 0\<rparr>
     + late_count \<lparr>total_records = 2, present_count = 1, late_count = 1, absent_count = 0\<rparr>
     + absent_count \<lparr>total_records = 2, present_count = 1, late_count = 1, absent_count = 0\<rparr>
     = total_records \<lparr>total_records = 2, present_count = 1, late_count = 1, absent_count = 0\<rparr>"
  using summary_counts_partition_the_total [OF reachable_store_AB,
      where b = True and start_date = "\<lparr>year = 2024, month = 3, day = 1\<rparr>"
        and end_date = "\<lparr>year = 2024, month = 3, day = 4\<rparr>" and department_filter = None]
    report_store_AB reachable_store_AB
  by blast

section \<open>What the student cards show\<close>











end
